theory Spec2Isabelle
  imports Complex_Main "HOL-Library.Word" "HOL-Library.AList"
begin

unbundle bit_operations_syntax

section \<open>kvstore-backed ID allocator (pkg/kvstore/allocator/allocator.go)\<close>

text \<open>
  The allocator maps application keys to 64-bit identifiers through master keys
  \<open>basePath/id/<ID>\<close> and slave keys \<open>basePath/value/<key>/<node>\<close> in a shared kvstore.
  This theory embeds \<open>allocator.go\<close>: every Go function becomes a HOL function that takes
  the allocator and the interaction history and returns the Go results together with the
  updated allocator and history.
\<close>

subsection \<open>Identifiers, errors, strings\<close>

type_synonym ID = "64 word"

type_synonym error = string

definition NoID :: ID where
  "NoID = 0"

definition sq :: string where
  "sq = [CHR 0x27]"

text \<open>\<open>%s\<close> of an \<open>error\<close> in \<open>fmt.Errorf\<close>: a nil error prints as \<open>%!s(<nil>)\<close>.\<close>

definition fmt_s :: "error option \<Rightarrow> string" where
  "fmt_s e = (case e of None \<Rightarrow> ''%!s(<nil>)'' | Some m \<Rightarrow> m)"

subsubsection \<open>strconv.FormatUint and strconv.ParseUint, base 10, 64 bits\<close>

definition digit_char :: "nat \<Rightarrow> char" where
  "digit_char d = ''0123456789'' ! d"

fun digits :: "nat \<Rightarrow> string" where
  "digits n = (if n < 10 then [digit_char n]
               else digits (n div 10) @ [digit_char (n mod 10)])"

declare digits.simps [simp del]

definition FormatUint :: "ID \<Rightarrow> string" where
  "FormatUint i = digits (unat i)"

definition is_digit :: "char \<Rightarrow> bool" where
  "is_digit c = (48 \<le> (of_char c :: nat) \<and> (of_char c :: nat) \<le> 57)"

definition digit_value :: "char \<Rightarrow> nat" where
  "digit_value c = (of_char c :: nat) - 48"

text \<open>
  \<open>strconv.ParseUint(s, 10, 64)\<close>: a syntax error for the empty string and for any byte that
  is not a decimal digit (no sign, no underscore in base 10), a range error from \<open>2^64\<close> on.
  \<open>None\<close> is the non-nil error.
\<close>

definition ParseUint :: "string \<Rightarrow> ID option" where
  "ParseUint s =
     (if s = [] \<or> \<not> list_all is_digit s then None
      else (let n = foldl (\<lambda>acc c. 10 * acc + digit_value c) 0 s
            in if n < 2 ^ 64 then Some (word_of_nat n) else None))"

subsubsection \<open>strings.LastIndex, strings.TrimPrefix\<close>

fun last_index_from :: "char \<Rightarrow> string \<Rightarrow> int \<Rightarrow> int \<Rightarrow> int" where
  "last_index_from c [] i found = found"
| "last_index_from c (x # xs) i found =
     last_index_from c xs (i + 1) (if x = c then i else found)"

text \<open>\<open>strings.LastIndex(s, "/")\<close> for a one-byte separator: \<open>-1\<close> when absent.\<close>

definition LastIndex :: "string \<Rightarrow> char \<Rightarrow> int" where
  "LastIndex s c = last_index_from c s 0 (- 1)"

definition TrimPrefix :: "string \<Rightarrow> string \<Rightarrow> string" where
  "TrimPrefix s p = (if take (length p) s = p then drop (length p) s else s)"

subsubsection \<open>path.Join and path.Clean\<close>

fun split_slash :: "string \<Rightarrow> string list" where
  "split_slash [] = [[]]"
| "split_slash (c # cs) =
     (if c = CHR ''/'' then [] # split_slash cs
      else (case split_slash cs of
              [] \<Rightarrow> [[c]]
            | x # xs \<Rightarrow> (c # x) # xs))"

fun join_slash :: "string list \<Rightarrow> string" where
  "join_slash [] = []"
| "join_slash [e] = e"
| "join_slash (e # es) = e @ ''/'' @ join_slash es"

text \<open>
  \<open>path.Clean\<close>, element by element: empty elements and \<open>.\<close> are dropped, \<open>..\<close> removes the
  element before it when there is one to remove, is kept at the start of a relative path and
  is dropped at the root.
\<close>

fun clean_elems :: "bool \<Rightarrow> string list \<Rightarrow> string list \<Rightarrow> string list" where
  "clean_elems rooted out [] = out"
| "clean_elems rooted out (e # es) =
     (if e = [] \<or> e = ''.'' then clean_elems rooted out es
      else if e = ''..'' then
        (if out \<noteq> [] \<and> last out \<noteq> ''..'' then clean_elems rooted (butlast out) es
         else if \<not> rooted then clean_elems rooted (out @ [''..'']) es
         else clean_elems rooted out es)
      else clean_elems rooted (out @ [e]) es)"

definition path_Clean :: "string \<Rightarrow> string" where
  "path_Clean p =
     (if p = [] then ''.''
      else (let rooted = (hd p = CHR ''/'');
                out = clean_elems rooted [] (split_slash p);
                s = (if rooted then ''/'' else []) @ join_slash out
            in if s = [] then ''.'' else s))"

definition path_Join :: "string list \<Rightarrow> string" where
  "path_Join elem =
     (let es = filter (\<lambda>e. e \<noteq> []) elem
      in if es = [] then [] else path_Clean (join_slash es))"

subsection \<open>The kvstore, the context and the clock as an environment\<close>

text \<open>
  \<open>kvstore.Value\<close>, with the two fields the allocator reads, and the result of a prefix
  listing. A Go map has no duplicate keys and no iteration order: the listing is given as
  the list of its pairs in the order in which \<open>range\<close> visits them.
\<close>

record Value =
  Data :: string
  ModRevision :: "64 word"

type_synonym KeyValuePairs = "(string \<times> Value) list"

text \<open>\<open>backoff.Exponential\<close>: \<open>Min\<close> is a \<open>time.Duration\<close> in nanoseconds.\<close>

record Exponential =
  Min :: int
  Factor :: real
  Name :: string

text \<open>
  Every call that leaves the process, and every warning that is logged, is an event; a
  lock handle is the path it locks. The history of a run is the list of its events.
\<close>

datatype event =
    EvLockPath string
  | EvUnlock string
  | EvListPrefix string
  | EvListPrefixIfLocked string string
  | EvCreateOnly string string bool
  | EvCreateOnlyIfLocked string string bool string
  | EvUpdateIfDifferent string string bool
  | EvUpdateIfDifferentIfLocked string string bool string
  | EvDelete string
  | EvDeleteIfLocked string string
  | EvWait Exponential
  | EvWarning string
  | EvError string

type_synonym world = "event list"

datatype select_outcome = InitialListDone | CtxDone error | BlockForever

text \<open>
  The kvstore package, the context and the backoff clock are outside \<open>allocator.go\<close>. Their
  answers are given by an environment: each answer may depend on the whole history so far,
  so that any run of the real store, with its failures and with other nodes writing in
  between, is one environment. \<open>None\<close> is a nil error.
\<close>

record environment =
  Client_nil :: bool
  NewUUID :: string
  Capabilities_lockless :: bool
  LockPath_r :: "world \<Rightarrow> string \<Rightarrow> error option"
  ListPrefix_r :: "world \<Rightarrow> string \<Rightarrow> error + KeyValuePairs"
  ListPrefixIfLocked_r :: "world \<Rightarrow> string \<Rightarrow> string \<Rightarrow> error + KeyValuePairs"
  CreateOnly_r :: "world \<Rightarrow> string \<Rightarrow> string \<Rightarrow> bool \<Rightarrow> bool \<times> error option"
  CreateOnlyIfLocked_r ::
    "world \<Rightarrow> string \<Rightarrow> string \<Rightarrow> bool \<Rightarrow> string \<Rightarrow> bool \<times> error option"
  UpdateIfDifferent_r :: "world \<Rightarrow> string \<Rightarrow> string \<Rightarrow> bool \<Rightarrow> bool \<times> error option"
  UpdateIfDifferentIfLocked_r ::
    "world \<Rightarrow> string \<Rightarrow> string \<Rightarrow> bool \<Rightarrow> string \<Rightarrow> bool \<times> error option"
  Delete_r :: "world \<Rightarrow> string \<Rightarrow> error option"
  DeleteIfLocked_r :: "world \<Rightarrow> string \<Rightarrow> string \<Rightarrow> error option"
  initialListDone_r :: "world \<Rightarrow> select_outcome"
  ctx_Done :: "world \<Rightarrow> error option"
  Wait_r :: "world \<Rightarrow> Exponential \<Rightarrow> error option"
  lease_choice :: "world \<Rightarrow> nat"

definition kv_LockPath :: "environment \<Rightarrow> world \<Rightarrow> string \<Rightarrow> (error + string) \<times> world" where
  "kv_LockPath env w p =
     ((case LockPath_r env w p of None \<Rightarrow> Inr p | Some e \<Rightarrow> Inl e), w @ [EvLockPath p])"

definition kv_ListPrefix ::
  "environment \<Rightarrow> world \<Rightarrow> string \<Rightarrow> (error + KeyValuePairs) \<times> world" where
  "kv_ListPrefix env w p = (ListPrefix_r env w p, w @ [EvListPrefix p])"

definition kv_ListPrefixIfLocked ::
  "environment \<Rightarrow> world \<Rightarrow> string \<Rightarrow> string \<Rightarrow> (error + KeyValuePairs) \<times> world" where
  "kv_ListPrefixIfLocked env w p lock =
     (ListPrefixIfLocked_r env w p lock, w @ [EvListPrefixIfLocked p lock])"

definition kv_CreateOnly ::
  "environment \<Rightarrow> world \<Rightarrow> string \<Rightarrow> string \<Rightarrow> bool \<Rightarrow> (bool \<times> error option) \<times> world" where
  "kv_CreateOnly env w k v lease = (CreateOnly_r env w k v lease, w @ [EvCreateOnly k v lease])"

definition kv_CreateOnlyIfLocked ::
  "environment \<Rightarrow> world \<Rightarrow> string \<Rightarrow> string \<Rightarrow> bool \<Rightarrow> string
     \<Rightarrow> (bool \<times> error option) \<times> world" where
  "kv_CreateOnlyIfLocked env w k v lease lock =
     (CreateOnlyIfLocked_r env w k v lease lock, w @ [EvCreateOnlyIfLocked k v lease lock])"

definition kv_UpdateIfDifferent ::
  "environment \<Rightarrow> world \<Rightarrow> string \<Rightarrow> string \<Rightarrow> bool \<Rightarrow> (bool \<times> error option) \<times> world" where
  "kv_UpdateIfDifferent env w k v lease =
     (UpdateIfDifferent_r env w k v lease, w @ [EvUpdateIfDifferent k v lease])"

definition kv_UpdateIfDifferentIfLocked ::
  "environment \<Rightarrow> world \<Rightarrow> string \<Rightarrow> string \<Rightarrow> bool \<Rightarrow> string
     \<Rightarrow> (bool \<times> error option) \<times> world" where
  "kv_UpdateIfDifferentIfLocked env w k v lease lock =
     (UpdateIfDifferentIfLocked_r env w k v lease lock,
      w @ [EvUpdateIfDifferentIfLocked k v lease lock])"

definition kv_Delete :: "environment \<Rightarrow> world \<Rightarrow> string \<Rightarrow> error option \<times> world" where
  "kv_Delete env w k = (Delete_r env w k, w @ [EvDelete k])"

definition kv_DeleteIfLocked ::
  "environment \<Rightarrow> world \<Rightarrow> string \<Rightarrow> string \<Rightarrow> error option \<times> world" where
  "kv_DeleteIfLocked env w k lock = (DeleteIfLocked_r env w k lock, w @ [EvDeleteIfLocked k lock])"

definition backoff_Wait :: "environment \<Rightarrow> world \<Rightarrow> Exponential \<Rightarrow> error option \<times> world" where
  "backoff_Wait env w boff = (Wait_r env w boff, w @ [EvWait boff])"

subsection \<open>Local key table, ID pool and cache\<close>

text \<open>\<open>AllocatorKey\<close>: the canonical string of the key and its human-readable form.\<close>

record AllocatorKey =
  GetKey :: string
  key_String :: string

record localKey =
  val :: ID
  refcnt :: nat
  verified :: bool

type_synonym localKeys = "(string \<times> localKey) list"

definition newLocalKeys :: localKeys where
  "newLocalKeys = []"

text \<open>
  Modelled from the spec: the local key table (\<open>localKeys\<close>, not among the sources), section
  4.2: \<open>use(k)\<close>: if \<open>k\<close> is present, increment the refcount and return its ID, else \<open>NoID\<close>.
\<close>

definition use :: "localKeys \<Rightarrow> string \<Rightarrow> ID \<times> localKeys" where
  "use lk k =
     (case map_of lk k of
        None \<Rightarrow> (NoID, lk)
      | Some e \<Rightarrow> (val e, AList.update k (e\<lparr>refcnt := refcnt e + 1\<rparr>) lk))"

text \<open>
  Modelled from the spec: \<open>localKeys.allocate(k, id)\<close>, section 4.2: insert \<open>(k, id)\<close> if
  absent and return \<open>id\<close>; else increment the refcount and return the existing ID. The
  source reads a second result, an error; the spec names none, so it is always nil here.
\<close>

definition allocate :: "localKeys \<Rightarrow> string \<Rightarrow> ID \<Rightarrow> (ID \<times> error option) \<times> localKeys" where
  "allocate lk k i =
     (case map_of lk k of
        None \<Rightarrow> ((i, None), AList.update k \<lparr>val = i, refcnt = 1, verified = False\<rparr> lk)
      | Some e \<Rightarrow> ((val e, None), AList.update k (e\<lparr>refcnt := refcnt e + 1\<rparr>) lk))"

text \<open>
  Modelled from the spec: \<open>localKeys.release(k)\<close>, section 4.2: decrement, returning true
  iff the refcount hit zero (then remove the entry). The source reads an error as second
  result; the spec does not say when it is set: here, when the key is absent.
\<close>

definition release :: "localKeys \<Rightarrow> string \<Rightarrow> (bool \<times> error option) \<times> localKeys" where
  "release lk k =
     (case map_of lk k of
        None \<Rightarrow> ((False, Some ''unable to find key in local cache''), lk)
      | Some e \<Rightarrow>
          (if refcnt e \<le> 1 then ((True, None), AList.delete k lk)
           else ((False, None), AList.update k (e\<lparr>refcnt := refcnt e - 1\<rparr>) lk)))"

text \<open>
  Modelled from the spec: \<open>localKeys.verify(k)\<close>, section 4.2: set the verified bit; the
  error the source reads is set when the key is absent.
\<close>

definition verify :: "localKeys \<Rightarrow> string \<Rightarrow> error option \<times> localKeys" where
  "verify lk k =
     (case map_of lk k of
        None \<Rightarrow> (Some ''unable to find key in local cache'', lk)
      | Some e \<Rightarrow> (None, AList.update k (e\<lparr>verified := True\<rparr>) lk))"

text \<open>Modelled from the spec: \<open>localKeys.lookupKey(k)\<close>, section 4.2: the ID of \<open>k\<close>.\<close>

definition lookupKey :: "localKeys \<Rightarrow> string \<Rightarrow> ID" where
  "lookupKey lk k = (case map_of lk k of None \<Rightarrow> NoID | Some e \<Rightarrow> val e)"

text \<open>
  Modelled from the spec: \<open>localKeys.getVerifiedIDs()\<close>, section 4.2: the map from ID to
  key string of the verified entries, as the list of its pairs.
\<close>

definition getVerifiedIDs :: "localKeys \<Rightarrow> (ID \<times> string) list" where
  "getVerifiedIDs lk = map (\<lambda>(k, e). (val e, k)) (filter (\<lambda>(k, e). verified e) lk)"

text \<open>
  Modelled from the spec: the ID pool (\<open>idpool.IDPool\<close>, not among the sources), sections 3
  and 4.1: a dense pool over \<open>[min, max]\<close> whose entries are free, leased or in use. \<open>ids\<close>
  are the free entries, \<open>leased\<close> the leased ones; every other ID of the range is in use.
\<close>

record IDPool =
  minID :: ID
  maxID :: ID
  ids :: "ID list"
  leased :: "ID list"

definition NewIDPool :: "ID \<Rightarrow> ID \<Rightarrow> IDPool" where
  "NewIDPool lo hi =
     \<lparr>minID = lo, maxID = hi, ids = map word_of_nat [unat lo ..< Suc (unat hi)], leased = []\<rparr>"

text \<open>
  Modelled from the spec: \<open>LeaseAvailableID()\<close>, section 4.1: remove and return an arbitrary
  free ID, marking it leased; \<open>NoID\<close> when none is free. The arbitrary choice is the number
  \<open>n\<close>.
\<close>

definition LeaseAvailableID :: "IDPool \<Rightarrow> nat \<Rightarrow> ID \<times> IDPool" where
  "LeaseAvailableID p n =
     (if ids p = [] then (NoID, p)
      else (let i = ids p ! (n mod length (ids p))
            in (i, p\<lparr>ids := removeAll i (ids p), leased := i # leased p\<rparr>)))"

text \<open>
  Modelled from the spec: \<open>Use(id)\<close>, section 4.1: promote a leased ID to in-use;
  idempotent.
\<close>

definition IDPool_Use :: "IDPool \<Rightarrow> ID \<Rightarrow> IDPool" where
  "IDPool_Use p i = p\<lparr>leased := removeAll i (leased p)\<rparr>"

text \<open>
  Modelled from the spec: \<open>Release(id)\<close>, section 4.1: return a leased or in-use ID to
  free.
\<close>

definition IDPool_Release :: "IDPool \<Rightarrow> ID \<Rightarrow> IDPool" where
  "IDPool_Release p i =
     (if minID p \<le> i \<and> i \<le> maxID p \<and> i \<notin> set (ids p)
      then p\<lparr>ids := i # ids p, leased := removeAll i (leased p)\<rparr>
      else p)"

text \<open>
  Modelled from the spec: the cache (\<open>cache\<close>, not among the sources), section 4.4: two
  dictionaries, key to ID and ID to key; \<open>get\<close> and \<open>insert\<close>. The watch stream that feeds it
  runs beside the allocator and is not part of this model.
\<close>

record cache =
  keyCache :: "string \<rightharpoonup> ID"
  idCache :: "ID \<rightharpoonup> AllocatorKey"
  deleteInvalidPrefixes :: bool

definition newCache :: cache where
  "newCache = \<lparr>keyCache = Map.empty, idCache = Map.empty, deleteInvalidPrefixes = False\<rparr>"

definition cache_get :: "cache \<Rightarrow> string \<Rightarrow> ID" where
  "cache_get c k = (case keyCache c k of None \<Rightarrow> NoID | Some i \<Rightarrow> i)"

definition cache_insert :: "cache \<Rightarrow> AllocatorKey \<Rightarrow> ID \<Rightarrow> cache" where
  "cache_insert c key i =
     c\<lparr>keyCache := (keyCache c)(GetKey key \<mapsto> i), idCache := (idCache c)(i \<mapsto> key)\<rparr>"

subsection \<open>The allocator\<close>

definition maxAllocAttempts :: nat where
  "maxAllocAttempts = 16"

record Allocator =
  events :: bool
  basePrefix :: string
  idPrefix :: string
  valuePrefix :: string
  lockPrefix :: string
  min_id :: ID
  max_id :: ID
  prefixMask :: ID
  localKeys :: localKeys
  suffix :: string
  lockless :: bool
  backoffTemplate :: Exponential
  mainCache :: cache
  idPool :: IDPool
  enableMasterKeyProtection :: bool
  disableGC :: bool

datatype AllocatorOption =
    WithEvents
  | WithSuffix string
  | WithMin ID
  | WithMax ID
  | WithPrefixMask ID
  | WithMasterKeyProtection
  | WithoutGC

fun apply_option :: "AllocatorOption \<Rightarrow> Allocator \<Rightarrow> Allocator" where
  "apply_option WithEvents a = a\<lparr>events := True\<rparr>"
| "apply_option (WithSuffix v) a = a\<lparr>suffix := v\<rparr>"
| "apply_option (WithMin i) a = a\<lparr>min_id := i\<rparr>"
| "apply_option (WithMax i) a = a\<lparr>max_id := i\<rparr>"
| "apply_option (WithPrefixMask m) a = a\<lparr>prefixMask := m\<rparr>"
| "apply_option WithMasterKeyProtection a = a\<lparr>enableMasterKeyProtection := True\<rparr>"
| "apply_option WithoutGC a = a\<lparr>disableGC := True\<rparr>"

text \<open>
  \<open>NewAllocator\<close>: the struct literal, the options applied in order, then the checks.
  \<open>uuid.NewUUID().String()\<close> is the environment's \<open>NewUUID\<close>, a string of 36 characters, of
  which the first ten are the default suffix. The ID pool field of the literal is unset in
  the source and is filled after the checks. The goroutines started at the end (the cache's
  watcher, the local key sync) are not part of the returned value.
\<close>

definition allocator_literal :: "environment \<Rightarrow> string \<Rightarrow> Allocator" where
  "allocator_literal env basePath =
     \<lparr>events = False,
      basePrefix = basePath,
      idPrefix = path_Join [basePath, ''id''],
      valuePrefix = path_Join [basePath, ''value''],
      lockPrefix = path_Join [basePath, ''locks''],
      min_id = 1,
      max_id = NOT 0,
      prefixMask = 0,
      localKeys = newLocalKeys,
      suffix = take 10 (NewUUID env),
      lockless = Capabilities_lockless env,
      backoffTemplate = \<lparr>Min = 20 * 1000000, Factor = 2, Name = []\<rparr>,
      mainCache = newCache,
      idPool = NewIDPool 0 0,
      enableMasterKeyProtection = False,
      disableGC = False\<rparr>"

definition apply_options :: "AllocatorOption list \<Rightarrow> Allocator \<Rightarrow> Allocator" where
  "apply_options opts a = foldl (\<lambda>b fn. apply_option fn b) a opts"

definition NewAllocator :: "environment \<Rightarrow> string \<Rightarrow> AllocatorOption list \<Rightarrow> error + Allocator" where
  "NewAllocator env basePath opts =
     (if Client_nil env then Inl ''kvstore client not configured''
      else
        (let a1 = apply_options opts (allocator_literal env basePath);
             a2 = a1\<lparr>mainCache := newCache\<lparr>deleteInvalidPrefixes := True\<rparr>\<rparr>
         in if suffix a2 = ''<nil>'' then Inl ''allocator suffix is <nil> and unlikely unique''
            else if min_id a2 < 1 then Inl ''minimum ID must be >= 1''
            else if max_id a2 \<le> min_id a2
              then Inl ''maximum ID must be greater than minimum ID''
            else Inr (a2\<lparr>idPool := NewIDPool (min_id a2) (max_id a2)\<rparr>)))"

definition lockPath :: "environment \<Rightarrow> Allocator \<Rightarrow> world \<Rightarrow> string \<Rightarrow> (error + string) \<times> world" where
  "lockPath env a w key =
     kv_LockPath env w (path_Join [lockPrefix a, TrimPrefix key (basePrefix a)])"

text \<open>
  \<open>selectAvailableID\<close>: the selected ID ORed with \<open>prefixMask\<close>, its string and the ID as
  selected.
\<close>

definition selectAvailableID ::
  "environment \<Rightarrow> Allocator \<Rightarrow> world \<Rightarrow> (ID \<times> string \<times> ID) \<times> Allocator" where
  "selectAvailableID env a w =
     (case LeaseAvailableID (idPool a) (lease_choice env w) of
        (i, p) \<Rightarrow>
          (if i \<noteq> NoID
           then ((i OR prefixMask a, FormatUint (i OR prefixMask a), i), a\<lparr>idPool := p\<rparr>)
           else ((0, [], 0), a\<lparr>idPool := p\<rparr>)))"

definition createValueNodeKey ::
  "environment \<Rightarrow> Allocator \<Rightarrow> world \<Rightarrow> string \<Rightarrow> ID \<Rightarrow> string
     \<Rightarrow> error option \<times> Allocator \<times> world" where
  "createValueNodeKey env a w key newID lock =
     (let valueKey = path_Join [valuePrefix a, key, suffix a]
      in case kv_UpdateIfDifferentIfLocked env w valueKey (FormatUint newID) True lock of
           ((_, Some err), w1) \<Rightarrow>
             (Some (''unable to create value-node key '' @ sq @ valueKey @ sq @ '': '' @ err),
              a, w1)
         | ((_, None), w1) \<Rightarrow>
             (case verify (localKeys a) key of
                (Some err, lk) \<Rightarrow>
                  (None, a\<lparr>localKeys := lk\<rparr>, w1 @ [EvError ''BUG: Unable to verify local key''])
              | (None, lk) \<Rightarrow> (None, a\<lparr>localKeys := lk\<rparr>, w1)))"

subsubsection \<open>Lookup\<close>

definition prefixMatchesKey :: "string \<Rightarrow> string \<Rightarrow> bool" where
  "prefixMatchesKey prefix key = (int (length prefix) = LastIndex key (CHR ''/''))"

text \<open>
  The loop shared by \<open>GetNoCache\<close> and \<open>GetNoCacheIfLocked\<close>: the first pair, in iteration
  order, whose key matches the prefix and whose data parses, else \<open>NoID\<close>.
\<close>

fun scan_pairs :: "string \<Rightarrow> KeyValuePairs \<Rightarrow> ID" where
  "scan_pairs prefix [] = NoID"
| "scan_pairs prefix ((k, v) # pairs) =
     (if prefixMatchesKey prefix k
      then (case ParseUint (Data v) of
              Some i \<Rightarrow> i
            | None \<Rightarrow> scan_pairs prefix pairs)
      else scan_pairs prefix pairs)"

definition GetNoCacheIfLocked ::
  "environment \<Rightarrow> Allocator \<Rightarrow> world \<Rightarrow> AllocatorKey \<Rightarrow> string \<Rightarrow> (ID \<times> error option) \<times> world" where
  "GetNoCacheIfLocked env a w key lock =
     (let prefix = path_Join [valuePrefix a, GetKey key]
      in case kv_ListPrefixIfLocked env w prefix lock of
           (Inl err, w1) \<Rightarrow> ((0, Some err), w1)
         | (Inr pairs, w1) \<Rightarrow> ((scan_pairs prefix pairs, None), w1))"

definition GetNoCache ::
  "environment \<Rightarrow> Allocator \<Rightarrow> world \<Rightarrow> AllocatorKey \<Rightarrow> (ID \<times> error option) \<times> world" where
  "GetNoCache env a w key =
     (let prefix = path_Join [valuePrefix a, GetKey key]
      in case kv_ListPrefix env w prefix of
           (Inl err, w1) \<Rightarrow> ((0, Some err), w1)
         | (Inr pairs, w1) \<Rightarrow> ((scan_pairs prefix pairs, None), w1))"

definition GetIfLocked ::
  "environment \<Rightarrow> Allocator \<Rightarrow> world \<Rightarrow> AllocatorKey \<Rightarrow> string \<Rightarrow> (ID \<times> error option) \<times> world" where
  "GetIfLocked env a w key lock =
     (if cache_get (mainCache a) (GetKey key) \<noteq> NoID
      then ((cache_get (mainCache a) (GetKey key), None), w)
      else GetNoCacheIfLocked env a w key lock)"

definition Get ::
  "environment \<Rightarrow> Allocator \<Rightarrow> world \<Rightarrow> AllocatorKey \<Rightarrow> (ID \<times> error option) \<times> world" where
  "Get env a w key =
     (if cache_get (mainCache a) (GetKey key) \<noteq> NoID
      then ((cache_get (mainCache a) (GetKey key), None), w)
      else GetNoCache env a w key)"

subsubsection \<open>Allocation\<close>

definition releaseKeyAndID :: "Allocator \<Rightarrow> string \<Rightarrow> ID \<Rightarrow> Allocator" where
  "releaseKeyAndID a k unmaskedID =
     a\<lparr>localKeys := snd (release (localKeys a) k),
       idPool := IDPool_Release (idPool a) unmaskedID\<rparr>"

definition errUnableMasterKey :: "string \<Rightarrow> error option \<Rightarrow> error" where
  "errUnableMasterKey keyPath err =
     ''unable to create master key '' @ sq @ keyPath @ sq @ '': '' @ fmt_s err"

definition errNoMoreIDs :: error where
  "errNoMoreIDs = ''no more available IDs in configured space''"

text \<open>
  \<open>lockedAllocate\<close> from \<open>if value != 0\<close> on: the slave key of an ID that exists already.
\<close>

definition lockedAllocate_reuse ::
  "environment \<Rightarrow> string \<Rightarrow> string \<Rightarrow> ID \<Rightarrow> Allocator \<Rightarrow> world
     \<Rightarrow> (ID \<times> bool \<times> error option) \<times> Allocator \<times> world" where
  "lockedAllocate_reuse env k lock value a w =
     (case createValueNodeKey env a w k value lock of
        (Some err, a1, w1) \<Rightarrow>
          ((0, False, Some (''unable to create slave key '' @ sq @ k @ sq @ '': '' @ err)),
           a1\<lparr>localKeys := snd (release (localKeys a1) k)\<rparr>, w1)
      | (None, a1, w1) \<Rightarrow> ((value, False, None), a1, w1))"

text \<open>\<open>lockedAllocate\<close> from \<open>selectAvailableID\<close> on: a new ID is needed.\<close>

definition lockedAllocate_new ::
  "environment \<Rightarrow> string \<Rightarrow> string \<Rightarrow> Allocator \<Rightarrow> world
     \<Rightarrow> (ID \<times> bool \<times> error option) \<times> Allocator \<times> world" where
  "lockedAllocate_new env k lock a w =
     (case selectAvailableID env a w of
        ((i, strID, unmaskedID), a1) \<Rightarrow>
          (if i = 0 then ((0, False, Some errNoMoreIDs), a1, w)
           else
             (case allocate (localKeys a1) k i of
                ((oldID, Some err), lk) \<Rightarrow>
                  ((0, False, Some (''unable to reserve local key '' @ sq @ k @ sq @ '': '' @ err)),
                   a1\<lparr>localKeys := lk, idPool := IDPool_Release (idPool a1) unmaskedID\<rparr>, w)
              | ((oldID, None), lk) \<Rightarrow>
                  (let a2 = a1\<lparr>localKeys := lk\<rparr>
                   in if i \<noteq> oldID
                      then ((0, False, Some ''another writer has allocated this key''),
                            releaseKeyAndID a2 k unmaskedID, w)
                      else
                        (let keyPath = path_Join [idPrefix a2, strID]
                         in case kv_CreateOnlyIfLocked env w keyPath k False lock of
                              ((success, err), w1) \<Rightarrow>
                                (if err \<noteq> None \<or> \<not> success
                                 then ((0, False, Some (errUnableMasterKey keyPath err)),
                                       releaseKeyAndID a2 k unmaskedID, w1)
                                 else
                                   (let a3 = a2\<lparr>idPool := IDPool_Use (idPool a2) unmaskedID\<rparr>
                                    in case createValueNodeKey env a3 w1 k i lock of
                                         (Some err2, a4, w2) \<Rightarrow>
                                           ((0, False,
                                             Some (''slave key creation failed '' @ sq @ k @ sq
                                                   @ '': '' @ err2)),
                                            releaseKeyAndID a4 k unmaskedID, w2)
                                       | (None, a4, w2) \<Rightarrow> ((i, True, None), a4, w2))))))))"

text \<open>\<open>lockedAllocate\<close> between \<open>lockPath\<close> and the deferred \<open>lock.Unlock()\<close>.\<close>

definition lockedAllocate_locked ::
  "environment \<Rightarrow> AllocatorKey \<Rightarrow> string \<Rightarrow> Allocator \<Rightarrow> world
     \<Rightarrow> (ID \<times> bool \<times> error option) \<times> Allocator \<times> world" where
  "lockedAllocate_locked env key lock a w =
     (let k = GetKey key
      in case GetIfLocked env a w key lock of
           ((_, Some err), w1) \<Rightarrow> ((0, False, Some err), a, w1)
         | ((value, None), w1) \<Rightarrow>
             (if value = 0 then
                (let value2 = lookupKey (localKeys a) k
                 in if value2 \<noteq> 0 then
                      (let keyPath = path_Join [idPrefix a, FormatUint value2]
                       in case kv_CreateOnlyIfLocked env w1 keyPath k False lock of
                            ((success, err), w2) \<Rightarrow>
                              (if err \<noteq> None \<or> \<not> success
                               then ((0, False, Some (errUnableMasterKey keyPath err)), a, w2)
                               else lockedAllocate_reuse env k lock value2 a w2))
                    else lockedAllocate_new env k lock a w1)
              else
                (case allocate (localKeys a) k value of
                   ((_, Some err), lk) \<Rightarrow>
                     ((0, False,
                       Some (''unable to reserve local key '' @ sq @ k @ sq @ '': '' @ err)),
                      a\<lparr>localKeys := lk\<rparr>, w1)
                 | ((_, None), lk) \<Rightarrow>
                     lockedAllocate_reuse env k lock value (a\<lparr>localKeys := lk\<rparr>) w1)))"

definition lockedAllocate ::
  "environment \<Rightarrow> AllocatorKey \<Rightarrow> Allocator \<Rightarrow> world
     \<Rightarrow> (ID \<times> bool \<times> error option) \<times> Allocator \<times> world" where
  "lockedAllocate env key a w =
     (case lockPath env a w (GetKey key) of
        (Inl err, w1) \<Rightarrow> ((0, False, Some err), a, w1)
      | (Inr lock, w1) \<Rightarrow>
          (case lockedAllocate_locked env key lock a w1 of
             (r, a1, w2) \<Rightarrow> (r, a1, w2 @ [EvUnlock lock])))"

text \<open>
  The retry loop of \<open>Allocate\<close>; \<open>err\<close> is the variable of that name, the error of the last
  attempt.
\<close>

function Allocate_loop ::
  "environment \<Rightarrow> AllocatorKey \<Rightarrow> Exponential \<Rightarrow> nat \<Rightarrow> error option \<Rightarrow> Allocator \<Rightarrow> world
     \<Rightarrow> (ID \<times> bool \<times> error option) \<times> Allocator \<times> world" where
  "Allocate_loop env key boff attempt err a w =
     (if attempt < maxAllocAttempts then
        (case lockedAllocate env key a w of
           ((value, isNew, None), a1, w1) \<Rightarrow>
             ((value, isNew, None), a1\<lparr>mainCache := cache_insert (mainCache a1) key value\<rparr>, w1)
         | ((value, isNew, Some e), a1, w1) \<Rightarrow>
             (case ctx_Done env w1 of
                Some cerr \<Rightarrow>
                  ((0, False, Some (''key allocation cancelled: '' @ cerr)), a1,
                   w1 @ [EvWarning ''Ongoing key allocation has been cancelled''])
              | None \<Rightarrow>
                  (case backoff_Wait env (w1 @ [EvWarning ''Key allocation attempt failed'']) boff of
                     (Some waitErr, w2) \<Rightarrow> ((0, False, Some waitErr), a1, w2)
                   | (None, w2) \<Rightarrow> Allocate_loop env key boff (attempt + 1) (Some e) a1 w2)))
      else ((0, False, err), a, w))"
  by pat_completeness auto
termination
  by (relation "measure (\<lambda>(env, key, boff, attempt, err, a, w). maxAllocAttempts - attempt)") auto

declare Allocate_loop.simps [simp del]

text \<open>
  \<open>Allocate\<close>. The first \<open>select\<close> waits for the initial list or for the context; when
  neither ever comes the call does not return, which is the result \<open>None\<close>.
\<close>

definition Allocate ::
  "environment \<Rightarrow> AllocatorKey \<Rightarrow> Allocator \<Rightarrow> world
     \<Rightarrow> ((ID \<times> bool \<times> error option) \<times> Allocator \<times> world) option" where
  "Allocate env key a w =
     (case initialListDone_r env w of
        BlockForever \<Rightarrow> None
      | CtxDone cerr \<Rightarrow>
          Some ((0, False,
                 Some (''allocation was cancelled while waiting for initial key list to be received: ''
                       @ cerr)), a, w)
      | InitialListDone \<Rightarrow>
          (case use (localKeys a) (GetKey key) of
             (v, lk) \<Rightarrow>
               (if v \<noteq> NoID
                then Some ((v, False, None),
                           a\<lparr>localKeys := lk, mainCache := cache_insert (mainCache a) key v\<rparr>, w)
                else Some (Allocate_loop env key ((backoffTemplate a)\<lparr>Name := key_String key\<rparr>)
                             0 None (a\<lparr>localKeys := lk\<rparr>) w))))"

subsubsection \<open>Release\<close>

definition Release ::
  "environment \<Rightarrow> AllocatorKey \<Rightarrow> Allocator \<Rightarrow> world
     \<Rightarrow> ((bool \<times> error option) \<times> Allocator \<times> world) option" where
  "Release env key a w =
     (case initialListDone_r env w of
        BlockForever \<Rightarrow> None
      | CtxDone cerr \<Rightarrow>
          Some ((False,
                 Some (''release was cancelled while waiting for initial key list to be received: ''
                       @ cerr)), a, w)
      | InitialListDone \<Rightarrow>
          (let k = GetKey key
           in case release (localKeys a) k of
                ((lastUse, Some err), lk) \<Rightarrow> Some ((lastUse, Some err), a\<lparr>localKeys := lk\<rparr>, w)
              | ((lastUse, None), lk) \<Rightarrow>
                  (if lastUse then
                     (let valueKey = path_Join [valuePrefix a, k, suffix a]
                      in case kv_Delete env w valueKey of
                           (Some derr, w1) \<Rightarrow>
                             Some ((lastUse, None), a\<lparr>localKeys := lk\<rparr>,
                                   w1 @ [EvWarning ''Ignoring node specific ID''])
                         | (None, w1) \<Rightarrow> Some ((lastUse, None), a\<lparr>localKeys := lk\<rparr>, w1))
                   else Some ((lastUse, None), a\<lparr>localKeys := lk\<rparr>, w))))"

subsubsection \<open>Garbage collection\<close>

definition hasUsers :: "string \<Rightarrow> KeyValuePairs \<Rightarrow> bool" where
  "hasUsers valueKeyPrefix pairs = list_ex (\<lambda>kv. prefixMatchesKey valueKeyPrefix (fst kv)) pairs"

text \<open>
  One iteration of the loop of \<open>RunGC\<close> over \<open>allocated\<close>: the master key \<open>key\<close> with value \<open>v\<close>.
\<close>

definition RunGC_key ::
  "environment \<Rightarrow> Allocator \<Rightarrow> (string \<rightharpoonup> 64 word) \<Rightarrow> string \<times> Value
     \<Rightarrow> (string \<rightharpoonup> 64 word) \<times> world \<Rightarrow> (string \<rightharpoonup> 64 word) \<times> world" where
  "RunGC_key env a staleKeysPrevRound kv st =
     (case (kv, st) of
        ((key, v), (staleKeys, w)) \<Rightarrow>
          (case lockPath env a w key of
             (Inl err, w1) \<Rightarrow>
               (staleKeys,
                w1 @ [EvWarning ''allocator garbage collector was unable to lock key''])
           | (Inr lock, w1) \<Rightarrow>
               (let valueKeyPrefix = path_Join [valuePrefix a, Data v]
                in case kv_ListPrefixIfLocked env w1 valueKeyPrefix lock of
                     (Inl err, w2) \<Rightarrow>
                       (staleKeys,
                        w2 @ [EvWarning ''allocator garbage collector was unable to list keys'',
                              EvUnlock lock])
                   | (Inr pairs, w2) \<Rightarrow>
                       (if \<not> hasUsers valueKeyPrefix pairs then
                          (if staleKeysPrevRound key = Some (ModRevision v) then
                             (case kv_DeleteIfLocked env w2 key lock of
                                (Some derr, w3) \<Rightarrow>
                                  (staleKeys,
                                   w3 @ [EvWarning ''Unable to delete unused allocator master key'',
                                         EvUnlock lock])
                              | (None, w3) \<Rightarrow> (staleKeys, w3 @ [EvUnlock lock]))
                           else (staleKeys(key \<mapsto> ModRevision v), w2 @ [EvUnlock lock]))
                        else (staleKeys, w2 @ [EvUnlock lock])))))"

fun RunGC_loop ::
  "environment \<Rightarrow> Allocator \<Rightarrow> (string \<rightharpoonup> 64 word) \<Rightarrow> KeyValuePairs
     \<Rightarrow> (string \<rightharpoonup> 64 word) \<times> world \<Rightarrow> (string \<rightharpoonup> 64 word) \<times> world" where
  "RunGC_loop env a staleKeysPrevRound [] st = st"
| "RunGC_loop env a staleKeysPrevRound (kv # allocated) st =
     RunGC_loop env a staleKeysPrevRound allocated (RunGC_key env a staleKeysPrevRound kv st)"

definition RunGC ::
  "environment \<Rightarrow> Allocator \<Rightarrow> (string \<rightharpoonup> 64 word) \<Rightarrow> world
     \<Rightarrow> (error + (string \<rightharpoonup> 64 word)) \<times> world" where
  "RunGC env a staleKeysPrevRound w =
     (case kv_ListPrefix env w (idPrefix a) of
        (Inl err, w1) \<Rightarrow> (Inl (''list failed: '' @ err), w1)
      | (Inr allocated, w1) \<Rightarrow>
          (case RunGC_loop env a staleKeysPrevRound allocated (Map.empty, w1) of
             (staleKeys, w2) \<Rightarrow> (Inr staleKeys, w2)))"

subsubsection \<open>Local key sync\<close>

definition recreateMasterKey ::
  "environment \<Rightarrow> Allocator \<Rightarrow> ID \<Rightarrow> string \<Rightarrow> bool \<Rightarrow> world \<Rightarrow> world" where
  "recreateMasterKey env a i value reliablyMissing w =
     (let keyPath = path_Join [idPrefix a, FormatUint i];
          valueKey = path_Join [valuePrefix a, value, suffix a];
          r1 = (if reliablyMissing then kv_CreateOnly env w keyPath value False
                else kv_UpdateIfDifferent env w keyPath value False);
          w1 = (case r1 of
                  ((recreated, Some err), w') \<Rightarrow>
                    w' @ [EvWarning ''Unable to re-create missing master key'']
                | ((recreated, None), w') \<Rightarrow>
                    (if recreated then w' @ [EvWarning ''Re-created missing master key'']
                     else w'));
          r2 = (if reliablyMissing then kv_CreateOnly env w1 valueKey (FormatUint i) True
                else kv_UpdateIfDifferent env w1 valueKey (FormatUint i) True)
      in (case r2 of
            ((recreated, Some err), w') \<Rightarrow>
              w' @ [EvWarning ''Unable to re-create missing slave key'']
          | ((recreated, None), w') \<Rightarrow>
              (if recreated then w' @ [EvWarning ''Re-created missing slave key''] else w')))"

fun syncLocalKeys_loop ::
  "environment \<Rightarrow> Allocator \<Rightarrow> (ID \<times> string) list \<Rightarrow> world \<Rightarrow> world" where
  "syncLocalKeys_loop env a [] w = w"
| "syncLocalKeys_loop env a ((i, value) # rest) w =
     syncLocalKeys_loop env a rest (recreateMasterKey env a i value False w)"

definition syncLocalKeys :: "environment \<Rightarrow> Allocator \<Rightarrow> world \<Rightarrow> error option \<times> world" where
  "syncLocalKeys env a w =
     (let ids = getVerifiedIDs (localKeys a)
      in (None, syncLocalKeys_loop env a ids w))"

subsection \<open>An in-memory kvstore\<close>

text \<open>
  Modelled from the spec: the kvstore (package \<open>kvstore\<close>, not among the sources), section
  6.1: conditional writes (create only if absent, update if different), deletes and prefix
  listings over one table of keys, each with its data and modification revision. The calls
  in \<open>faults\<close> fail with an error and leave the table as it is; locks are always granted, the
  initial list is done, the context is never cancelled and the pool's choice is its first
  free ID. The table at any moment is the initial one with the history replayed on it.
\<close>

record kvstate =
  store :: KeyValuePairs
  revision :: "64 word"

definition kv_put :: "string \<Rightarrow> string \<Rightarrow> kvstate \<Rightarrow> kvstate" where
  "kv_put k d s =
     \<lparr>store = AList.update k \<lparr>Data = d, ModRevision = revision s + 1\<rparr> (store s),
      revision = revision s + 1\<rparr>"

definition kv_create :: "string \<Rightarrow> string \<Rightarrow> kvstate \<Rightarrow> kvstate" where
  "kv_create k d s = (if map_of (store s) k = None then kv_put k d s else s)"

definition kv_differs :: "string \<Rightarrow> string \<Rightarrow> kvstate \<Rightarrow> bool" where
  "kv_differs k d s = (case map_of (store s) k of None \<Rightarrow> True | Some v \<Rightarrow> Data v \<noteq> d)"

definition kv_update :: "string \<Rightarrow> string \<Rightarrow> kvstate \<Rightarrow> kvstate" where
  "kv_update k d s = (if kv_differs k d s then kv_put k d s else s)"

definition kv_remove :: "string \<Rightarrow> kvstate \<Rightarrow> kvstate" where
  "kv_remove k s = s\<lparr>store := AList.delete k (store s)\<rparr>"

fun kv_effect :: "event \<Rightarrow> kvstate \<Rightarrow> kvstate" where
  "kv_effect (EvCreateOnly k d l) s = kv_create k d s"
| "kv_effect (EvCreateOnlyIfLocked k d l lock) s = kv_create k d s"
| "kv_effect (EvUpdateIfDifferent k d l) s = kv_update k d s"
| "kv_effect (EvUpdateIfDifferentIfLocked k d l lock) s = kv_update k d s"
| "kv_effect (EvDelete k) s = kv_remove k s"
| "kv_effect (EvDeleteIfLocked k lock) s = kv_remove k s"
| "kv_effect e s = s"

definition kv_apply :: "(event \<Rightarrow> bool) \<Rightarrow> kvstate \<Rightarrow> event \<Rightarrow> kvstate" where
  "kv_apply faults s e = (if faults e then s else kv_effect e s)"

definition kv_replay :: "(event \<Rightarrow> bool) \<Rightarrow> KeyValuePairs \<Rightarrow> world \<Rightarrow> kvstate" where
  "kv_replay faults init w = foldl (kv_apply faults) \<lparr>store = init, revision = 0\<rparr> w"

definition kv_list :: "string \<Rightarrow> kvstate \<Rightarrow> KeyValuePairs" where
  "kv_list p s = filter (\<lambda>kv. take (length p) (fst kv) = p) (store s)"

definition kv_fault :: error where
  "kv_fault = ''kvstore unavailable''"

definition memkv :: "KeyValuePairs \<Rightarrow> (event \<Rightarrow> bool) \<Rightarrow> environment" where
  "memkv init faults =
     \<lparr>Client_nil = False,
      NewUUID = ''123e4567-e89b-12d3-a456-426614174000'',
      Capabilities_lockless = False,
      LockPath_r = (\<lambda>w p. if faults (EvLockPath p) then Some kv_fault else None),
      ListPrefix_r = (\<lambda>w p. if faults (EvListPrefix p) then Inl kv_fault
                             else Inr (kv_list p (kv_replay faults init w))),
      ListPrefixIfLocked_r =
        (\<lambda>w p lock. if faults (EvListPrefixIfLocked p lock) then Inl kv_fault
                     else Inr (kv_list p (kv_replay faults init w))),
      CreateOnly_r =
        (\<lambda>w k d l. if faults (EvCreateOnly k d l) then (False, Some kv_fault)
                    else (map_of (store (kv_replay faults init w)) k = None, None)),
      CreateOnlyIfLocked_r =
        (\<lambda>w k d l lock. if faults (EvCreateOnlyIfLocked k d l lock) then (False, Some kv_fault)
                         else (map_of (store (kv_replay faults init w)) k = None, None)),
      UpdateIfDifferent_r =
        (\<lambda>w k d l. if faults (EvUpdateIfDifferent k d l) then (False, Some kv_fault)
                    else (kv_differs k d (kv_replay faults init w), None)),
      UpdateIfDifferentIfLocked_r =
        (\<lambda>w k d l lock. if faults (EvUpdateIfDifferentIfLocked k d l lock)
                         then (False, Some kv_fault)
                         else (kv_differs k d (kv_replay faults init w), None)),
      Delete_r = (\<lambda>w k. if faults (EvDelete k) then Some kv_fault else None),
      DeleteIfLocked_r =
        (\<lambda>w k lock. if faults (EvDeleteIfLocked k lock) then Some kv_fault else None),
      initialListDone_r = (\<lambda>w. InitialListDone),
      ctx_Done = (\<lambda>w. None),
      Wait_r = (\<lambda>w boff. None),
      lease_choice = (\<lambda>w. 0)\<rparr>"

subsection \<open>The scenario of the spec: one participant over the range 1 to 3\<close>

definition no_faults :: "event \<Rightarrow> bool" where
  "no_faults e = False"

definition key_of :: "string \<Rightarrow> AllocatorKey" where
  "key_of s = \<lparr>GetKey = s, key_String = s\<rparr>"

text \<open>
  The allocator that \<open>NewAllocator\<close> returns for the base path \<open>cilium\<close> with
  \<open>WithSuffix("n1")\<close>, \<open>WithMin(1)\<close> and \<open>WithMax(3)\<close>.
\<close>

definition N1 :: Allocator where
  "N1 = \<lparr>events = False,
         basePrefix = ''cilium'',
         idPrefix = ''cilium/id'',
         valuePrefix = ''cilium/value'',
         lockPrefix = ''cilium/locks'',
         min_id = 1,
         max_id = 3,
         prefixMask = 0,
         localKeys = [],
         suffix = ''n1'',
         lockless = False,
         backoffTemplate = \<lparr>Min = 20000000, Factor = 2, Name = []\<rparr>,
         mainCache = \<lparr>keyCache = Map.empty, idCache = Map.empty, deleteInvalidPrefixes = True\<rparr>,
         idPool = \<lparr>minID = 1, maxID = 3, ids = [1, 2, 3], leased = []\<rparr>,
         enableMasterKeyProtection = False,
         disableGC = False\<rparr>"

definition is_warning :: "event \<Rightarrow> bool" where
  "is_warning e = (case e of EvWarning m \<Rightarrow> True | _ \<Rightarrow> False)"

definition N1a :: Allocator where
  "N1a = N1\<lparr>localKeys := [(''a'', \<lparr>val = 1, refcnt = 1, verified = True\<rparr>)]\<rparr>"

section \<open>Properties\<close>

subsection \<open>Strings and keys\<close>

lemma last_index_absent: "c \<notin> set s \<Longrightarrow> last_index_from c s i f = f"
  by (induction s arbitrary: i f) auto

lemma last_index_present:
  "c \<in> set s \<Longrightarrow>
     \<exists>n<length s. last_index_from c s i f = i + int n \<and> s ! n = c \<and> c \<notin> set (drop (Suc n) s)"
proof (induction s arbitrary: i f)
  case Nil
  then show ?case by simp
next
  case (Cons x xs)
  show ?case
  proof (cases "c \<in> set xs")
    case True
    from Cons.IH [OF True, of "i + 1" "if x = c then i else f"]
    obtain n where n: "n < length xs"
      "last_index_from c xs (i + 1) (if x = c then i else f) = i + 1 + int n"
      "xs ! n = c" "c \<notin> set (drop (Suc n) xs)"
      by blast
    then have "Suc n < length (x # xs) \<and> last_index_from c (x # xs) i f = i + int (Suc n)
        \<and> (x # xs) ! Suc n = c \<and> c \<notin> set (drop (Suc (Suc n)) (x # xs))"
      by simp
    then show ?thesis by blast
  next
    case False
    with Cons.prems have xc: "x = c" by simp
    have "last_index_from c (x # xs) i f = i + int 0"
      using False xc by (simp add: last_index_absent)
    moreover have "(x # xs) ! 0 = c" using xc by simp
    moreover have "c \<notin> set (drop (Suc 0) (x # xs))" using False by simp
    ultimately show ?thesis by (intro exI [of _ 0]) simp
  qed
qed

lemma last_index_unique:
  "n < length s \<Longrightarrow> s ! n = c \<Longrightarrow> c \<notin> set (drop (Suc n) s) \<Longrightarrow>
   m < length s \<Longrightarrow> s ! m = c \<Longrightarrow> c \<notin> set (drop (Suc m) s) \<Longrightarrow> n = m"
proof (rule ccontr)
  assume a: "n < length s" "s ! n = c" "c \<notin> set (drop (Suc n) s)"
    "m < length s" "s ! m = c" "c \<notin> set (drop (Suc m) s)" and ne: "n \<noteq> m"
  have aux: "\<And>p q. p < q \<Longrightarrow> q < length s \<Longrightarrow> s ! q \<in> set (drop (Suc p) s)"
  proof -
    fix p q assume "p < q" "q < length s"
    then have "drop (Suc p) s ! (q - Suc p) = s ! q" "q - Suc p < length (drop (Suc p) s)"
      by auto
    then show "s ! q \<in> set (drop (Suc p) s)" by (metis nth_mem)
  qed
  from ne consider "n < m" | "m < n" by linarith
  then show False
  proof cases
    case 1 with aux [of n m] a show False by simp
  next
    case 2 with aux [of m n] a show False by simp
  qed
qed

lemma prefixMatchesKey_iff:
  "prefixMatchesKey prefix key \<longleftrightarrow>
     (length prefix < length key \<and> key ! length prefix = CHR ''/''
      \<and> CHR ''/'' \<notin> set (drop (Suc (length prefix)) key))"
proof (cases "CHR ''/'' \<in> set key")
  case False
  then have "LastIndex key (CHR ''/'') = - 1"
    by (simp add: LastIndex_def last_index_absent)
  moreover have "\<not> (length prefix < length key \<and> key ! length prefix = CHR ''/'')"
    using False by (metis nth_mem)
  ultimately show ?thesis by (auto simp: prefixMatchesKey_def)
next
  case True
  from last_index_present [OF True, of 0 "- 1"]
  obtain n where n: "n < length key" "LastIndex key (CHR ''/'') = int n"
    "key ! n = CHR ''/''" "CHR ''/'' \<notin> set (drop (Suc n) key)"
    by (auto simp: LastIndex_def)
  show ?thesis
  proof
    assume "prefixMatchesKey prefix key"
    then have "length prefix = n" using n(2) by (simp add: prefixMatchesKey_def)
    with n show "length prefix < length key \<and> key ! length prefix = CHR ''/''
      \<and> CHR ''/'' \<notin> set (drop (Suc (length prefix)) key)" by simp
  next
    assume r: "length prefix < length key \<and> key ! length prefix = CHR ''/''
      \<and> CHR ''/'' \<notin> set (drop (Suc (length prefix)) key)"
    then have "length prefix = n"
      using last_index_unique [of "length prefix" key "CHR ''/''" n] n by blast
    then show "prefixMatchesKey prefix key" using n(2) by (simp add: prefixMatchesKey_def)
  qed
qed

lemma prefixMatchesKey_segment:
  assumes "take (length prefix) key = prefix"
  shows "prefixMatchesKey prefix key \<longleftrightarrow>
           (\<exists>seg. key = prefix @ ''/'' @ seg \<and> CHR ''/'' \<notin> set seg)"
proof
  assume "prefixMatchesKey prefix key"
  then have h: "length prefix < length key" "key ! length prefix = CHR ''/''"
    "CHR ''/'' \<notin> set (drop (Suc (length prefix)) key)"
    by (simp_all add: prefixMatchesKey_iff)
  have "key = take (length prefix) key @ drop (length prefix) key" by simp
  also have "drop (length prefix) key = key ! length prefix # drop (Suc (length prefix)) key"
    using h(1) by (simp add: Cons_nth_drop_Suc)
  finally have "key = prefix @ ''/'' @ drop (Suc (length prefix)) key"
    using assms h(2) by simp
  with h(3) show "\<exists>seg. key = prefix @ ''/'' @ seg \<and> CHR ''/'' \<notin> set seg" by blast
next
  assume "\<exists>seg. key = prefix @ ''/'' @ seg \<and> CHR ''/'' \<notin> set seg"
  then obtain seg where "key = prefix @ ''/'' @ seg" "CHR ''/'' \<notin> set seg" by blast
  then show "prefixMatchesKey prefix key"
    by (simp add: prefixMatchesKey_iff nth_append)
qed

lemma scan_pairs_cases:
  "(\<exists>k v. (k, v) \<in> set pairs \<and> prefixMatchesKey prefix k \<and> ParseUint (Data v) = Some (scan_pairs prefix pairs))
   \<or> (scan_pairs prefix pairs = NoID \<and>
       (\<forall>(k, v)\<in>set pairs. prefixMatchesKey prefix k \<longrightarrow> ParseUint (Data v) = None))"
  by (induction prefix pairs rule: scan_pairs.induct) (auto split: option.splits)

lemma scan_pairs_filter:
  "scan_pairs prefix (filter (\<lambda>kv. prefixMatchesKey prefix (fst kv)) pairs) = scan_pairs prefix pairs"
  by (induction prefix pairs rule: scan_pairs.induct) (auto split: option.splits)

lemma scan_pairs_skip:
  "prefixMatchesKey prefix k \<longrightarrow> ParseUint (Data v) = None \<Longrightarrow>
     scan_pairs prefix (pre @ (k, v) # post) = scan_pairs prefix (pre @ post)"
  by (induction prefix pre rule: scan_pairs.induct) (auto split: option.splits)

lemma scan_pairs_none:
  "\<forall>(k, v)\<in>set pairs. prefixMatchesKey prefix k \<longrightarrow> ParseUint (Data v) = None \<Longrightarrow>
     scan_pairs prefix pairs = NoID"
  by (induction prefix pairs rule: scan_pairs.induct) (auto split: option.splits)

subsection \<open>Construction\<close>

lemma NewIDPool_1_3: "NewIDPool 1 3 = \<lparr>minID = 1, maxID = 3, ids = [1, 2, 3], leased = []\<rparr>"
  by (simp add: NewIDPool_def upt_rec)

lemma NewAllocator_N1:
  "NewAllocator (memkv init faults) ''cilium'' [WithSuffix ''n1'', WithMin 1, WithMax 3] = Inr N1"
  by (simp add: NewAllocator_def memkv_def allocator_literal_def apply_options_def N1_def
      newLocalKeys_def newCache_def NewIDPool_1_3 path_Join_def path_Clean_def Let_def
      word_le_nat_alt word_less_nat_alt)

text \<open>
  C7: \<open>NewAllocator\<close> returns an error, and no allocator, exactly when the kvstore client is
  nil, the suffix after the options is \<open><nil>\<close>, the minimum ID after the options is less
  than 1, or the maximum ID is not strictly greater than the minimum. The literal sets
  min = 1 and max = 2^64 - 1, and with no options (and a client, and a UUID string of 36
  characters) construction succeeds with these bounds.
\<close>

theorem NewAllocator_errors:
  "((\<exists>e. NewAllocator env basePath opts = Inl e) \<longleftrightarrow>
      (Client_nil env
       \<or> suffix (apply_options opts (allocator_literal env basePath)) = ''<nil>''
       \<or> min_id (apply_options opts (allocator_literal env basePath)) < 1
       \<or> max_id (apply_options opts (allocator_literal env basePath))
           \<le> min_id (apply_options opts (allocator_literal env basePath))))
   \<and> min_id (allocator_literal env basePath) = 1
   \<and> unat (max_id (allocator_literal env basePath)) = 2 ^ 64 - 1
   \<and> (\<not> Client_nil env \<longrightarrow> length (NewUUID env) = 36 \<longrightarrow>
        (\<exists>a. NewAllocator env basePath [] = Inr a \<and> min_id a = 1 \<and> unat (max_id a) = 2 ^ 64 - 1))"
proof -
  have lit: "min_id (allocator_literal env basePath) = 1"
    "unat (max_id (allocator_literal env basePath)) = 2 ^ 64 - 1"
    by (simp_all add: allocator_literal_def unsigned_minus_1_eq_mask mask_eq_exp_minus_1)
  have iff: "(\<exists>e. NewAllocator env basePath opts = Inl e) \<longleftrightarrow>
      (Client_nil env
       \<or> suffix (apply_options opts (allocator_literal env basePath)) = ''<nil>''
       \<or> min_id (apply_options opts (allocator_literal env basePath)) < 1
       \<or> max_id (apply_options opts (allocator_literal env basePath))
           \<le> min_id (apply_options opts (allocator_literal env basePath)))"
    by (simp add: NewAllocator_def Let_def)
  have dflt: "\<exists>a. NewAllocator env basePath [] = Inr a \<and> min_id a = 1 \<and> unat (max_id a) = 2 ^ 64 - 1"
    if "\<not> Client_nil env" "length (NewUUID env) = 36"
  proof -
    have "length (suffix (allocator_literal env basePath)) = 10"
      using that by (simp add: allocator_literal_def)
    then have "suffix (allocator_literal env basePath) \<noteq> ''<nil>''" by auto
    moreover have "\<not> max_id (allocator_literal env basePath) \<le> min_id (allocator_literal env basePath)"
      by (simp add: allocator_literal_def word_le_nat_alt unsigned_minus_1_eq_mask
          mask_eq_exp_minus_1)
    ultimately show ?thesis
      using that lit by (simp add: NewAllocator_def Let_def apply_options_def)
  qed
  from lit iff dflt show ?thesis by blast
qed

theorem NewAllocator_errors_witness:
  "(\<exists>a. NewAllocator (memkv [] no_faults) ''cilium'' [] = Inr a \<and> min_id a = 1
        \<and> unat (max_id a) = 2 ^ 64 - 1)
   \<and> (\<exists>e. NewAllocator (memkv [] no_faults) ''cilium'' [WithMin 0] = Inl e)"
  using NewAllocator_errors [of "memkv [] no_faults" "''cilium''" "[]"]
    NewAllocator_errors [of "memkv [] no_faults" "''cilium''" "[WithMin 0]"]
  by (simp add: memkv_def apply_options_def)

subsection \<open>Release\<close>

text \<open>
  C8: when \<open>localKeys.release\<close> reports the last local use, \<open>Release\<close> deletes the slave key
  \<open>value/<k>/<suffix>\<close> with one \<open>kvstore.Delete\<close>; whatever that call answers, \<open>Release\<close>
  returns \<open>lastUse = true\<close> and a nil error, and a failed delete leaves only a warning in the
  log.
\<close>

theorem Release_last_use:
  assumes "initialListDone_r env w = InitialListDone"
    and "release (localKeys a) (GetKey key) = ((True, None), lk)"
    and "valueKey = path_Join [valuePrefix a, GetKey key, suffix a]"
  shows "Release env key a w =
           Some ((True, None), a\<lparr>localKeys := lk\<rparr>,
                 w @ [EvDelete valueKey]
                   @ (case Delete_r env w valueKey of
                        None \<Rightarrow> []
                      | Some derr \<Rightarrow> [EvWarning ''Ignoring node specific ID'']))"
  using assms by (simp add: Release_def kv_Delete_def split: option.splits)

theorem Release_last_use_witness:
  "Release (memkv [] (\<lambda>e. e = EvDelete ''cilium/value/a/n1'')) (key_of ''a'')
      (N1\<lparr>localKeys := [(''a'', \<lparr>val = 1, refcnt = 1, verified = True\<rparr>)]\<rparr>) []
     = Some ((True, None), N1\<lparr>localKeys := []\<rparr>,
             [EvDelete ''cilium/value/a/n1'', EvWarning ''Ignoring node specific ID''])"
proof -
  let ?env = "memkv [] (\<lambda>e. e = EvDelete ''cilium/value/a/n1'')"
  let ?a = "N1\<lparr>localKeys := [(''a'', \<lparr>val = 1, refcnt = 1, verified = True\<rparr>)]\<rparr>"
  have t1: "initialListDone_r ?env [] = InitialListDone"
    by (simp add: memkv_def)
  have t2: "release (localKeys ?a) (GetKey (key_of ''a'')) = ((True, None), [])"
    by (simp add: release_def key_of_def)
  have t3: "''cilium/value/a/n1'' = path_Join [valuePrefix ?a, GetKey (key_of ''a''), suffix ?a]"
    by (simp add: N1_def key_of_def path_Join_def path_Clean_def)
  have t4: "Delete_r ?env [] ''cilium/value/a/n1'' = Some kv_fault"
    by (simp add: memkv_def)
  show ?thesis
    using Release_last_use [OF t1 t2 t3] t4 by simp
qed

subsection \<open>Lookup\<close>

text \<open>
  C3: with the listing of \<open>valuePrefix/<key>\<close> at hand, \<open>Get\<close> on a cache miss is
  \<open>GetNoCache\<close>, which returns with a nil error the parsed ID of a listed pair whose key
  matches the prefix exactly, or \<open>NoID\<close> when no matching pair parses; the result is the one
  of the matching pairs alone, so a pair with more path segments is never returned; if no
  pair matches the result is \<open>NoID\<close>. A listed key matches exactly when it is the prefix,
  a slash and one segment without a slash. With the slaves \<open>label;foo;/n1\<close> and
  \<open>label;foo;bar;/n1\<close> listed in either order, the lookup of \<open>label;foo;\<close> returns the ID of
  the former.
\<close>

theorem GetNoCache_exact_prefix:
  assumes "prefix = path_Join [valuePrefix a, GetKey key]"
    and "ListPrefix_r env w prefix = Inr pairs"
  shows "(cache_get (mainCache a) (GetKey key) = NoID \<longrightarrow> Get env a w key = GetNoCache env a w key)
       \<and> (\<exists>i. GetNoCache env a w key = ((i, None), w @ [EvListPrefix prefix])
              \<and> ((\<exists>k v. (k, v) \<in> set pairs \<and> prefixMatchesKey prefix k
                        \<and> ParseUint (Data v) = Some i)
                  \<or> (i = NoID \<and> (\<forall>(k, v)\<in>set pairs.
                                     prefixMatchesKey prefix k \<longrightarrow> ParseUint (Data v) = None))))
       \<and> fst (fst (GetNoCache env a w key))
            = scan_pairs prefix (filter (\<lambda>kv. prefixMatchesKey prefix (fst kv)) pairs)
       \<and> ((\<forall>(k, v)\<in>set pairs. \<not> prefixMatchesKey prefix k) \<longrightarrow>
            fst (GetNoCache env a w key) = (NoID, None))
       \<and> (\<forall>(k, v)\<in>set pairs. take (length prefix) k = prefix \<longrightarrow>
            (prefixMatchesKey prefix k
               \<longleftrightarrow> (\<exists>seg. k = prefix @ ''/'' @ seg \<and> CHR ''/'' \<notin> set seg)))
       \<and> ((pairs = [(prefix @ ''/n1'', v1), (prefix @ ''bar;/n1'', v2)]
            \<or> pairs = [(prefix @ ''bar;/n1'', v2), (prefix @ ''/n1'', v1)]) \<longrightarrow>
           ParseUint (Data v1) = Some i1 \<longrightarrow>
            fst (GetNoCache env a w key) = (i1, None))"
proof -
  have r: "GetNoCache env a w key = ((scan_pairs prefix pairs, None), w @ [EvListPrefix prefix])"
    using assms by (simp add: GetNoCache_def kv_ListPrefix_def Let_def)
  have c1: "cache_get (mainCache a) (GetKey key) = NoID \<longrightarrow> Get env a w key = GetNoCache env a w key"
    by (simp add: Get_def)
  have c2: "\<exists>i. GetNoCache env a w key = ((i, None), w @ [EvListPrefix prefix])
              \<and> ((\<exists>k v. (k, v) \<in> set pairs \<and> prefixMatchesKey prefix k
                        \<and> ParseUint (Data v) = Some i)
                  \<or> (i = NoID \<and> (\<forall>(k, v)\<in>set pairs.
                                     prefixMatchesKey prefix k \<longrightarrow> ParseUint (Data v) = None)))"
    using r scan_pairs_cases [of pairs prefix] by blast
  have c3: "fst (fst (GetNoCache env a w key))
            = scan_pairs prefix (filter (\<lambda>kv. prefixMatchesKey prefix (fst kv)) pairs)"
    using r by (simp add: scan_pairs_filter)
  have c4: "(\<forall>(k, v)\<in>set pairs. \<not> prefixMatchesKey prefix k) \<longrightarrow>
            fst (GetNoCache env a w key) = (NoID, None)"
  proof
    assume "\<forall>(k, v)\<in>set pairs. \<not> prefixMatchesKey prefix k"
    then have "scan_pairs prefix pairs = NoID" by (intro scan_pairs_none) auto
    with r show "fst (GetNoCache env a w key) = (NoID, None)" by simp
  qed
  have c5: "\<forall>(k, v)\<in>set pairs. take (length prefix) k = prefix \<longrightarrow>
            (prefixMatchesKey prefix k
               \<longleftrightarrow> (\<exists>seg. k = prefix @ ''/'' @ seg \<and> CHR ''/'' \<notin> set seg))"
    using prefixMatchesKey_segment by blast
  have m1: "prefixMatchesKey prefix (prefix @ ''/n1'')"
    by (simp add: prefixMatchesKey_iff nth_append)
  have m2: "\<not> prefixMatchesKey prefix (prefix @ ''bar;/n1'')"
    by (simp add: prefixMatchesKey_iff nth_append)
  have c6: "(pairs = [(prefix @ ''/n1'', v1), (prefix @ ''bar;/n1'', v2)]
            \<or> pairs = [(prefix @ ''bar;/n1'', v2), (prefix @ ''/n1'', v1)]) \<longrightarrow>
           ParseUint (Data v1) = Some i1 \<longrightarrow>
            fst (GetNoCache env a w key) = (i1, None)"
    using r m1 m2 by auto
  from c1 c2 c3 c4 c5 c6 show ?thesis by blast
qed

theorem GetNoCache_exact_prefix_witness:
  "fst (GetNoCache
     (memkv [(''cilium/value/label;foo;bar;/n1'', \<lparr>Data = ''7'', ModRevision = 1\<rparr>),
             (''cilium/value/label;foo;/n1'', \<lparr>Data = ''5'', ModRevision = 2\<rparr>)] no_faults)
     N1 [] (key_of ''label;foo;'')) = (5, None)"
proof -
  let ?pairs = "[(''cilium/value/label;foo;bar;/n1'', \<lparr>Data = ''7'', ModRevision = 1\<rparr>),
             (''cilium/value/label;foo;/n1'', \<lparr>Data = ''5'', ModRevision = 2\<rparr>)]"
  have p: "''cilium/value/label;foo;'' = path_Join [valuePrefix N1, GetKey (key_of ''label;foo;'')]"
    by (simp add: N1_def key_of_def path_Join_def path_Clean_def)
  have l: "ListPrefix_r (memkv ?pairs no_faults) [] ''cilium/value/label;foo;'' = Inr ?pairs"
    by (simp add: memkv_def no_faults_def kv_list_def kv_replay_def)
  have v: "ParseUint (Data \<lparr>Data = ''5'', ModRevision = 2\<rparr>) = Some 5"
    by (simp add: ParseUint_def is_digit_def digit_value_def)
  show ?thesis
    using GetNoCache_exact_prefix [OF p l, of "\<lparr>Data = ''5'', ModRevision = 2\<rparr>"
        "\<lparr>Data = ''7'', ModRevision = 1\<rparr>" 5] v
    by simp
qed

text \<open>
  C9: \<open>GetNoCache\<close> and \<open>GetNoCacheIfLocked\<close> skip a pair whose data does not parse as a
  decimal \<open>uint64\<close>; when every listed pair is non-matching or unparseable they return
  \<open>NoID\<close> and a nil error, the very result of an empty listing.
\<close>

theorem GetNoCache_skips_unparseable:
  assumes "prefix = path_Join [valuePrefix a, GetKey key]"
    and "\<forall>(k, v)\<in>set pairs. \<not> prefixMatchesKey prefix k \<or> ParseUint (Data v) = None"
  shows "(ListPrefix_r env w prefix = Inr pairs \<longrightarrow>
            GetNoCache env a w key = ((NoID, None), w @ [EvListPrefix prefix]))
       \<and> (ListPrefixIfLocked_r env w prefix lock = Inr pairs \<longrightarrow>
            GetNoCacheIfLocked env a w key lock
              = ((NoID, None), w @ [EvListPrefixIfLocked prefix lock]))
       \<and> (ListPrefix_r env w prefix = Inr pairs \<longrightarrow> ListPrefix_r env2 w prefix = Inr [] \<longrightarrow>
            GetNoCache env a w key = GetNoCache env2 a w key)
       \<and> (ListPrefixIfLocked_r env w prefix lock = Inr pairs \<longrightarrow>
          ListPrefixIfLocked_r env2 w prefix lock = Inr [] \<longrightarrow>
            GetNoCacheIfLocked env a w key lock = GetNoCacheIfLocked env2 a w key lock)
       \<and> (\<forall>pre k v post. ParseUint (Data v) = None \<longrightarrow>
            scan_pairs prefix (pre @ (k, v) # post) = scan_pairs prefix (pre @ post))"
proof -
  have "scan_pairs prefix pairs = NoID"
    using assms(2) by (intro scan_pairs_none) auto
  then show ?thesis
    using assms(1)
    by (simp add: GetNoCache_def GetNoCacheIfLocked_def kv_ListPrefix_def
        kv_ListPrefixIfLocked_def scan_pairs_skip Let_def)
qed

theorem GetNoCache_skips_unparseable_witness:
  "GetNoCache
     (memkv [(''cilium/value/a/n1'', \<lparr>Data = ''x1'', ModRevision = 1\<rparr>),
             (''cilium/value/ab/n1'', \<lparr>Data = ''2'', ModRevision = 2\<rparr>)] no_faults)
     N1 [] (key_of ''a'')
   = ((NoID, None), [EvListPrefix ''cilium/value/a''])
   \<and> GetNoCache (memkv [] no_faults) N1 [] (key_of ''a'')
   = ((NoID, None), [EvListPrefix ''cilium/value/a''])"
proof -
  let ?pairs = "[(''cilium/value/a/n1'', \<lparr>Data = ''x1'', ModRevision = 1\<rparr>),
             (''cilium/value/ab/n1'', \<lparr>Data = ''2'', ModRevision = 2\<rparr>)]"
  have p: "''cilium/value/a'' = path_Join [valuePrefix N1, GetKey (key_of ''a'')]"
    by (simp add: N1_def key_of_def path_Join_def path_Clean_def)
  have bad: "\<forall>(k, v)\<in>set ?pairs. \<not> prefixMatchesKey ''cilium/value/a'' k \<or> ParseUint (Data v) = None"
    by (simp add: prefixMatchesKey_def LastIndex_def ParseUint_def is_digit_def)
  have l1: "ListPrefix_r (memkv ?pairs no_faults) [] ''cilium/value/a'' = Inr ?pairs"
    by (simp add: memkv_def no_faults_def kv_list_def kv_replay_def)
  have bad0: "\<forall>(k, v)\<in>set []. \<not> prefixMatchesKey ''cilium/value/a'' k \<or> ParseUint (Data v) = None"
    by simp
  have l2: "ListPrefix_r (memkv [] no_faults) [] ''cilium/value/a'' = Inr []"
    by (simp add: memkv_def no_faults_def kv_list_def kv_replay_def)
  show ?thesis
    using GetNoCache_skips_unparseable [OF p bad, of "memkv ?pairs no_faults" "[]"] l1
      GetNoCache_skips_unparseable [OF p bad0, of "memkv [] no_faults" "[]"] l2
    by simp
qed

subsection \<open>Local key sync\<close>

lemma recreateMasterKey_events:
  "\<exists>l1 l2. recreateMasterKey env a i value reliablyMissing w =
      w @ [if reliablyMissing then EvCreateOnly (path_Join [idPrefix a, FormatUint i]) value False
           else EvUpdateIfDifferent (path_Join [idPrefix a, FormatUint i]) value False]
        @ l1
        @ [if reliablyMissing
           then EvCreateOnly (path_Join [valuePrefix a, value, suffix a]) (FormatUint i) True
           else EvUpdateIfDifferent (path_Join [valuePrefix a, value, suffix a]) (FormatUint i) True]
        @ l2
      \<and> list_all is_warning (l1 @ l2)"
proof -
  let ?kp = "path_Join [idPrefix a, FormatUint i]"
  let ?vk = "path_Join [valuePrefix a, value, suffix a]"
  let ?e1 = "if reliablyMissing then EvCreateOnly ?kp value False
             else EvUpdateIfDifferent ?kp value False"
  let ?e2 = "if reliablyMissing then EvCreateOnly ?vk (FormatUint i) True
             else EvUpdateIfDifferent ?vk (FormatUint i) True"
  let ?r1 = "if reliablyMissing then kv_CreateOnly env w ?kp value False
             else kv_UpdateIfDifferent env w ?kp value False"
  let ?w1 = "case ?r1 of
               ((recreated, Some err), w') \<Rightarrow>
                 w' @ [EvWarning ''Unable to re-create missing master key'']
             | ((recreated, None), w') \<Rightarrow>
                 (if recreated then w' @ [EvWarning ''Re-created missing master key'']
                  else w')"
  let ?r2 = "if reliablyMissing then kv_CreateOnly env ?w1 ?vk (FormatUint i) True
             else kv_UpdateIfDifferent env ?w1 ?vk (FormatUint i) True"
  have s1: "snd ?r1 = w @ [?e1]"
    by (simp add: kv_CreateOnly_def kv_UpdateIfDifferent_def)
  obtain l1 where l1: "?w1 = w @ [?e1] @ l1" "list_all is_warning l1"
  proof (cases ?r1)
    case (Pair res w')
    then have w': "w' = w @ [?e1]" using s1 by simp
    obtain rc er where res: "res = (rc, er)" by (cases res)
    show ?thesis
    proof (cases er)
      case None
      show ?thesis
      proof (cases rc)
        case True
        have "?w1 = w @ [?e1] @ [EvWarning ''Re-created missing master key'']"
          using Pair res None True w' by simp
        then show ?thesis using that by (simp add: is_warning_def)
      next
        case False
        have "?w1 = w @ [?e1] @ []"
          using Pair res None False w' by simp
        then show ?thesis using that [of "[]"] by simp
      qed
    next
      case (Some err)
      have "?w1 = w @ [?e1] @ [EvWarning ''Unable to re-create missing master key'']"
        using Pair res Some w' by simp
      then show ?thesis using that by (simp add: is_warning_def)
    qed
  qed
  have s2: "snd ?r2 = ?w1 @ [?e2]"
    by (simp add: kv_CreateOnly_def kv_UpdateIfDifferent_def)
  have rm: "recreateMasterKey env a i value reliablyMissing w =
      (case ?r2 of
            ((recreated, Some err), w') \<Rightarrow>
              w' @ [EvWarning ''Unable to re-create missing slave key'']
          | ((recreated, None), w') \<Rightarrow>
              (if recreated then w' @ [EvWarning ''Re-created missing slave key''] else w'))"
    by (simp add: recreateMasterKey_def Let_def)
  obtain l2 where l2: "recreateMasterKey env a i value reliablyMissing w = ?w1 @ [?e2] @ l2"
    "list_all is_warning l2"
  proof (cases ?r2)
    case (Pair res w')
    then have w': "w' = ?w1 @ [?e2]" using s2 by simp
    obtain rc er where res: "res = (rc, er)" by (cases res)
    show ?thesis
    proof (cases er)
      case None
      show ?thesis
      proof (cases rc)
        case True
        have "recreateMasterKey env a i value reliablyMissing w
                = ?w1 @ [?e2] @ [EvWarning ''Re-created missing slave key'']"
          unfolding rm using Pair res None True w' by simp
        then show ?thesis using that by (simp add: is_warning_def)
      next
        case False
        have "recreateMasterKey env a i value reliablyMissing w = ?w1 @ [?e2] @ []"
          unfolding rm using Pair res None False w' by simp
        then show ?thesis using that [of "[]"] by simp
      qed
    next
      case (Some err)
      have "recreateMasterKey env a i value reliablyMissing w
              = ?w1 @ [?e2] @ [EvWarning ''Unable to re-create missing slave key'']"
        unfolding rm using Pair res Some w' by simp
      then show ?thesis using that by (simp add: is_warning_def)
    qed
  qed
  have "recreateMasterKey env a i value reliablyMissing w = w @ [?e1] @ l1 @ [?e2] @ l2"
    using l1(1) l2(1) by simp
  moreover have "list_all is_warning (l1 @ l2)" using l1(2) l2(2) by simp
  ultimately show ?thesis by blast
qed


lemma syncLocalKeys_loop_events:
  "\<exists>evs. syncLocalKeys_loop env a idl w = w @ evs
     \<and> (\<forall>(i, value)\<in>set idl.
           EvUpdateIfDifferent (path_Join [idPrefix a, FormatUint i]) value False \<in> set evs
           \<and> EvUpdateIfDifferent (path_Join [valuePrefix a, value, suffix a]) (FormatUint i) True
               \<in> set evs)
     \<and> (\<forall>e\<in>set evs. is_warning e \<or> (\<exists>k v l. e = EvUpdateIfDifferent k v l))"
proof (induction idl arbitrary: w)
  case Nil
  show ?case by simp
next
  case (Cons p idl)
  obtain i val0 where p: "p = (i, val0)" by (cases p)
  let ?e1 = "EvUpdateIfDifferent (path_Join [idPrefix a, FormatUint i]) val0 False"
  let ?e2 = "EvUpdateIfDifferent (path_Join [valuePrefix a, val0, suffix a]) (FormatUint i) True"
  from recreateMasterKey_events [of env a i val0 False w]
  obtain l1 l2 where r: "recreateMasterKey env a i val0 False w = w @ [?e1] @ l1 @ [?e2] @ l2"
    and lw: "list_all is_warning (l1 @ l2)"
    by auto
  from Cons.IH [of "recreateMasterKey env a i val0 False w"]
  obtain evs where evs:
    "syncLocalKeys_loop env a idl (recreateMasterKey env a i val0 False w)
       = recreateMasterKey env a i val0 False w @ evs"
    "\<forall>(j, v)\<in>set idl.
       EvUpdateIfDifferent (path_Join [idPrefix a, FormatUint j]) v False \<in> set evs
       \<and> EvUpdateIfDifferent (path_Join [valuePrefix a, v, suffix a]) (FormatUint j) True
           \<in> set evs"
    "\<forall>e\<in>set evs. is_warning e \<or> (\<exists>k v l. e = EvUpdateIfDifferent k v l)"
    by blast
  let ?all = "[?e1] @ l1 @ [?e2] @ l2 @ evs"
  have a1: "syncLocalKeys_loop env a (p # idl) w = w @ ?all"
    using p r evs(1) by simp
  have a2: "\<forall>(j, v)\<in>set (p # idl).
       EvUpdateIfDifferent (path_Join [idPrefix a, FormatUint j]) v False \<in> set ?all
       \<and> EvUpdateIfDifferent (path_Join [valuePrefix a, v, suffix a]) (FormatUint j) True
           \<in> set ?all"
    using p evs(2) by auto
  have a3: "\<forall>e\<in>set ?all. is_warning e \<or> (\<exists>k v l. e = EvUpdateIfDifferent k v l)"
    using lw evs(3) by (auto simp: list_all_iff)
  from a1 a2 a3 show ?case by blast
qed

lemma FormatUint_1: "FormatUint 1 = ''1''"
  by (simp add: FormatUint_def digits.simps digit_char_def)

lemma N1a_paths:
  "path_Join [idPrefix N1a, ''1''] = ''cilium/id/1''"
  "path_Join [valuePrefix N1a, ''a'', suffix N1a] = ''cilium/value/a/n1''"
  by (simp_all add: N1a_def N1_def path_Join_def path_Clean_def)

lemma N1a_verified: "getVerifiedIDs (localKeys N1a) = [(1, ''a'')]"
  by (simp add: N1a_def getVerifiedIDs_def)

text \<open>
  C2, as stated, fails: at a sync with one verified local key the allocator issues no
  create-only-if-absent write at all, neither for the master key nor for the slave key.
\<close>

theorem syncLocalKeys_create_only_counterexample:
  "getVerifiedIDs (localKeys N1a) = [(1, ''a'')]
   \<and> syncLocalKeys (memkv [] no_faults) N1a []
       = (None, [EvUpdateIfDifferent ''cilium/id/1'' ''a'' False,
                 EvWarning ''Re-created missing master key'',
                 EvUpdateIfDifferent ''cilium/value/a/n1'' ''1'' True,
                 EvWarning ''Re-created missing slave key''])
   \<and> EvCreateOnly ''cilium/id/1'' ''a'' False \<notin> set (snd (syncLocalKeys (memkv [] no_faults) N1a []))
   \<and> EvCreateOnly ''cilium/value/a/n1'' ''1'' True
       \<notin> set (snd (syncLocalKeys (memkv [] no_faults) N1a []))"
proof -
  have u1: "UpdateIfDifferent_r (memkv [] no_faults) [] ''cilium/id/1'' ''a'' False = (True, None)"
    by (simp add: memkv_def no_faults_def kv_differs_def kv_replay_def)
  have u2: "UpdateIfDifferent_r (memkv [] no_faults)
              [EvUpdateIfDifferent ''cilium/id/1'' ''a'' False,
               EvWarning ''Re-created missing master key''] ''cilium/value/a/n1'' ''1'' True
            = (True, None)"
    by (simp add: memkv_def no_faults_def kv_differs_def kv_replay_def kv_apply_def
        kv_update_def kv_put_def)
  have r: "recreateMasterKey (memkv [] no_faults) N1a 1 ''a'' False []
       = [EvUpdateIfDifferent ''cilium/id/1'' ''a'' False,
                 EvWarning ''Re-created missing master key'',
                 EvUpdateIfDifferent ''cilium/value/a/n1'' ''1'' True,
                 EvWarning ''Re-created missing slave key'']"
    by (simp add: recreateMasterKey_def FormatUint_1 N1a_paths kv_UpdateIfDifferent_def u1 u2)
  have s: "syncLocalKeys (memkv [] no_faults) N1a []
       = (None, [EvUpdateIfDifferent ''cilium/id/1'' ''a'' False,
                 EvWarning ''Re-created missing master key'',
                 EvUpdateIfDifferent ''cilium/value/a/n1'' ''1'' True,
                 EvWarning ''Re-created missing slave key''])"
    by (simp add: syncLocalKeys_def N1a_verified r)
  show ?thesis unfolding s using N1a_verified by simp
qed

text \<open>
  C2, amended: at a local key sync, for every entry of the snapshot of verified local keys,
  the allocator attempts to re-create the master key \<open>id/<id>\<close> and the slave key
  \<open>value/<k>/<suffix>\<close> with the update-if-different write, and issues no
  create-only-if-absent write (\<open>syncLocalKeys\<close> passes \<open>reliablyMissing = false\<close>);
  \<open>recreateMasterKey\<close> uses create-only-if-absent for both keys when it is called with
  \<open>reliablyMissing = true\<close>.
\<close>

theorem syncLocalKeys_updates_if_different:
  "(\<exists>evs. syncLocalKeys env a w = (None, w @ evs)
      \<and> (\<forall>(i, value)\<in>set (getVerifiedIDs (localKeys a)).
            EvUpdateIfDifferent (path_Join [idPrefix a, FormatUint i]) value False \<in> set evs
            \<and> EvUpdateIfDifferent (path_Join [valuePrefix a, value, suffix a]) (FormatUint i) True
                \<in> set evs)
      \<and> (\<forall>k v l. EvCreateOnly k v l \<notin> set evs))
   \<and> (\<exists>l1 l2. recreateMasterKey env a j value2 True w =
          w @ [EvCreateOnly (path_Join [idPrefix a, FormatUint j]) value2 False] @ l1
            @ [EvCreateOnly (path_Join [valuePrefix a, value2, suffix a]) (FormatUint j) True] @ l2
        \<and> list_all is_warning (l1 @ l2))"
proof -
  from syncLocalKeys_loop_events [of env a "getVerifiedIDs (localKeys a)" w]
  obtain evs where evs:
    "syncLocalKeys_loop env a (getVerifiedIDs (localKeys a)) w = w @ evs"
    "\<forall>(i, value)\<in>set (getVerifiedIDs (localKeys a)).
       EvUpdateIfDifferent (path_Join [idPrefix a, FormatUint i]) value False \<in> set evs
       \<and> EvUpdateIfDifferent (path_Join [valuePrefix a, value, suffix a]) (FormatUint i) True
           \<in> set evs"
    "\<forall>e\<in>set evs. is_warning e \<or> (\<exists>k v l. e = EvUpdateIfDifferent k v l)"
    by blast
  have "\<forall>k v l. EvCreateOnly k v l \<notin> set evs"
    using evs(3) by (auto simp: is_warning_def)
  with evs have first: "\<exists>evs. syncLocalKeys env a w = (None, w @ evs)
      \<and> (\<forall>(i, value)\<in>set (getVerifiedIDs (localKeys a)).
            EvUpdateIfDifferent (path_Join [idPrefix a, FormatUint i]) value False \<in> set evs
            \<and> EvUpdateIfDifferent (path_Join [valuePrefix a, value, suffix a]) (FormatUint i) True
                \<in> set evs)
      \<and> (\<forall>k v l. EvCreateOnly k v l \<notin> set evs)"
    by (simp add: syncLocalKeys_def)
  from recreateMasterKey_events [of env a j value2 True w]
  have second: "\<exists>l1 l2. recreateMasterKey env a j value2 True w =
          w @ [EvCreateOnly (path_Join [idPrefix a, FormatUint j]) value2 False] @ l1
            @ [EvCreateOnly (path_Join [valuePrefix a, value2, suffix a]) (FormatUint j) True] @ l2
        \<and> list_all is_warning (l1 @ l2)"
    by simp
  from first second show ?thesis by blast
qed

theorem syncLocalKeys_updates_if_different_witness:
  "\<exists>evs. syncLocalKeys (memkv [] no_faults) N1a [] = (None, evs)
      \<and> EvUpdateIfDifferent ''cilium/id/1'' ''a'' False \<in> set evs
      \<and> EvUpdateIfDifferent ''cilium/value/a/n1'' ''1'' True \<in> set evs
      \<and> (\<forall>k v l. EvCreateOnly k v l \<notin> set evs)"
  using syncLocalKeys_updates_if_different [of "memkv [] no_faults" N1a "[]"]
  by (simp add: N1a_verified FormatUint_1 N1a_paths)

end
